theory Spec2Isabelle
  imports Complex_Main
begin

section \<open>The heat-equation notebook \<^verbatim>\<open>main_diffusion_CR.ipynb\<close>\<close>

text \<open>
  The notebook is a sequential script over the finite-element library (dolfinx, UFL,
  PETSc) and the plotting library (pyvista). The script's own code is embedded as HOL
  functions over a record of its global variables. The library routines it calls are the
  fields of a record \<open>library\<close>: every theorem holds for any library. Python floats are
  read as real numbers (exact arithmetic).
\<close>

subsection \<open>Values, exceptions, in-place writes\<close>

text \<open>A point carries the coordinates \<open>x[0]\<close> and \<open>x[1]\<close>; a degree-of-freedom array or a
  PETSc vector is a list of reals.\<close>

type_synonym point = "real \<times> real"
type_synonym vec = "real list"

text \<open>A Python exception is a value; a call that raises returns \<open>Inl\<close> of it.\<close>

datatype error = ValueError string | RuntimeError string | PETScError int

definition then_do :: "error + 'a \<Rightarrow> ('a \<Rightarrow> error + 'b) \<Rightarrow> error + 'b" where
  "then_do m k = (case m of Inl e \<Rightarrow> Inl e | Inr x \<Rightarrow> k x)"

text \<open>A library routine that writes into an array it is given (\<open>interpolate\<close>,
  \<open>assemble_vector\<close>, \<open>solve\<close>, ...) returns the entries it writes, by index; the array
  keeps its size.\<close>

definition fill :: "vec \<Rightarrow> (nat \<Rightarrow> real) \<Rightarrow> vec" where
  "fill buf vals = map vals [0..<length buf]"

text \<open>numpy's \<open>dst[:] = src\<close> for one-dimensional arrays: an elementwise copy when the
  sizes agree, a broadcast of a one-element source, a \<open>ValueError\<close> otherwise.\<close>

definition assign_slice :: "vec \<Rightarrow> vec \<Rightarrow> error + vec" where
  "assign_slice dst src =
     (if length src = length dst then Inr src
      else if length src = 1 then Inr (replicate (length dst) (hd src))
      else Inl (ValueError ''could not broadcast input array''))"

text \<open>\<open>loc_b.set(0)\<close>: every entry of the vector becomes 0.\<close>

definition set_all :: "vec \<Rightarrow> real \<Rightarrow> vec" where
  "set_all vec0 c = replicate (length vec0) c"

subsection \<open>UFL forms\<close>

text \<open>UFL builds symbolic expressions. A coefficient refers to a \<open>fem.Function\<close> object of
  the script (\<open>u_n\<close> or \<open>f\<close>), whose array is read when the form is assembled.\<close>

datatype coefficient = u_n_ref | f_ref

datatype 'V argument = TrialFunction 'V | TestFunction 'V | Coefficient coefficient

datatype 'V expr =
    Arg "'V argument"
  | Constant real
  | Sum "'V expr" "'V expr"
  | Product "'V expr" "'V expr"
  | Dot "'V argument" "'V argument"

text \<open>\<open>Dot p q\<close> is \<open>ufl.dot(ufl.grad(p), ufl.grad(q))\<close>, the only use of \<open>grad\<close> and \<open>dot\<close>
  in the script; \<open>Integral e\<close> is \<open>e * ufl.dx\<close>.\<close>

datatype 'V form = Integral "'V expr" | FormSum "'V form" "'V form"

text \<open>The meaning of a form: each argument denotes a field, given by its value and its
  gradient at a point; \<open>dx\<close> is the integration functional over the domain.\<close>

record field =
  val :: "point \<Rightarrow> real"
  grad :: "point \<Rightarrow> real \<times> real"

fun dot :: "real \<times> real \<Rightarrow> real \<times> real \<Rightarrow> real" where
  "dot (p1, p2) (q1, q2) = p1 * q1 + p2 * q2"

fun expr_val :: "('V argument \<Rightarrow> field) \<Rightarrow> 'V expr \<Rightarrow> point \<Rightarrow> real" where
  "expr_val env (Arg p) x = val (env p) x"
| "expr_val env (Constant c) x = c"
| "expr_val env (Sum e1 e2) x = expr_val env e1 x + expr_val env e2 x"
| "expr_val env (Product e1 e2) x = expr_val env e1 x * expr_val env e2 x"
| "expr_val env (Dot p q) x = dot (grad (env p) x) (grad (env q) x)"

fun form_val :: "((point \<Rightarrow> real) \<Rightarrow> real) \<Rightarrow> ('V argument \<Rightarrow> field) \<Rightarrow> 'V form \<Rightarrow> real" where
  "form_val dx env (Integral e) = dx (expr_val env e)"
| "form_val dx env (FormSum F G) = form_val dx env F + form_val dx env G"

subsection \<open>The library\<close>

datatype CellType = interval | triangle | quadrilateral | tetrahedron | hexahedron

datatype KSPType = PREONLY | GMRES | CG
datatype PCType = LU | ILU | JACOBI
datatype InsertMode = INSERT_VALUES | ADD_VALUES
datatype ScatterMode = FORWARD | REVERSE

text \<open>A PETSc linear solver: the operator it was given and its configuration.\<close>

record 'M KSP =
  operators :: "'M option"
  ksp_type :: KSPType
  pc_type :: PCType

text \<open>The library routines the script calls. \<open>'m\<close> is the type of meshes, \<open>'V\<close> of
  function spaces, \<open>'bc\<close> of Dirichlet conditions, \<open>'M\<close> of matrices. A routine that
  receives a UFL form compiles it first (\<open>fem.form\<close>), so a failure of the compilation is a
  failure of that routine.\<close>

record ('m, 'V, 'bc, 'M) library =
  create_rectangle :: "point \<times> point \<Rightarrow> nat \<times> nat \<Rightarrow> CellType \<Rightarrow> error + 'm"
  functionspace :: "'m \<Rightarrow> string \<times> nat \<Rightarrow> error + 'V"
  topology_dim :: "'m \<Rightarrow> int"
  num_dofs :: "'V \<Rightarrow> nat"
  locate_entities_boundary :: "'m \<Rightarrow> int \<Rightarrow> (point \<Rightarrow> bool) \<Rightarrow> error + nat list"
  locate_dofs_topological :: "'V \<Rightarrow> int \<Rightarrow> nat list \<Rightarrow> error + nat list"
  dirichletbc :: "real \<Rightarrow> nat list \<Rightarrow> 'V \<Rightarrow> error + 'bc"
  interpolate :: "'V \<Rightarrow> (point \<Rightarrow> real) \<Rightarrow> error + (nat \<Rightarrow> real)"
  assemble_matrix :: "'V form \<Rightarrow> error + 'M"
  Mat_assemble :: "'M \<Rightarrow> error + 'M"
  create_vector :: "'V form \<Rightarrow> error + vec"
  assemble_vector :: "vec \<Rightarrow> 'V form \<Rightarrow> (coefficient \<Rightarrow> vec) \<Rightarrow> error + (nat \<Rightarrow> real)"
  apply_lifting :: "vec \<Rightarrow> 'V form list \<Rightarrow> 'bc list list \<Rightarrow> error + (nat \<Rightarrow> real)"
  ghostUpdate :: "vec \<Rightarrow> InsertMode \<Rightarrow> ScatterMode \<Rightarrow> error + (nat \<Rightarrow> real)"
  set_bc :: "vec \<Rightarrow> 'bc list \<Rightarrow> error + (nat \<Rightarrow> real)"
  solve :: "'M KSP \<Rightarrow> vec \<Rightarrow> vec \<Rightarrow> error + (nat \<Rightarrow> real)"
  scatter_forward :: "vec \<Rightarrow> error + (nat \<Rightarrow> real)"

subsection \<open>The source term, the initial condition, the temporal parameters\<close>

text \<open>The class \<open>TimeDependentSource\<close> has one attribute, \<open>t\<close>, which \<open>__init__\<close> sets to 0
  by default.\<close>

record TimeDependentSource =
  t :: real

definition eval :: "TimeDependentSource \<Rightarrow> point \<Rightarrow> real" where
  "eval self x =
     (- (fst x * snd x * (fst x - 2) * (snd x - 2) + 2 * fst x * (fst x - 2)
         + 2 * snd x * (snd x - 2))) * exp (- TimeDependentSource.t self)"

definition initial_condition :: "point \<Rightarrow> real" where
  "initial_condition x = fst x * snd x * (fst x - 2) * (snd x - 2)"

definition nx :: nat where "nx = 64"
definition ny :: nat where "ny = 64"

definition T :: real where "T = 3.0"
definition num_steps :: nat where "num_steps = 200"
definition dt :: real where "dt = T / real num_steps"

subsection \<open>The variational problem\<close>

definition u :: "'V \<Rightarrow> 'V expr" where
  "u W = Arg (TrialFunction W)"

definition v :: "'V \<Rightarrow> 'V expr" where
  "v W = Arg (TestFunction W)"

text \<open>\<open>a = u * v * ufl.dx + dt * ufl.dot(ufl.grad(u), ufl.grad(v)) * ufl.dx\<close>\<close>

definition a :: "'V \<Rightarrow> 'V form" where
  "a W = FormSum (Integral (Product (u W) (v W)))
                 (Integral (Product (Constant dt) (Dot (TrialFunction W) (TestFunction W))))"

text \<open>\<open>L = (u_n + dt * f) * v * ufl.dx\<close>\<close>

definition L :: "'V \<Rightarrow> 'V form" where
  "L W = Integral (Product (Sum (Arg (Coefficient u_n_ref))
                                (Product (Constant dt) (Arg (Coefficient f_ref))))
                           (v W))"

subsection \<open>The plotter and the files it writes\<close>

text \<open>A pyvista plotter holds the path of the GIF it has open, if any. A file is the list
  of the frames written to it; a frame is the scalar data shown when it was written.\<close>

record Plotter =
  mwriter :: "string option"

type_synonym filesystem = "string \<rightharpoonup> vec list"

definition open_gif :: "Plotter \<Rightarrow> string \<Rightarrow> filesystem \<Rightarrow> Plotter \<times> filesystem" where
  "open_gif p path fs = (p\<lparr>mwriter := Some path\<rparr>, fs(path \<mapsto> []))"

definition write_frame :: "Plotter \<Rightarrow> vec \<Rightarrow> filesystem \<Rightarrow> error + filesystem" where
  "write_frame p scene fs =
     (case mwriter p of
        None \<Rightarrow> Inl (RuntimeError ''This plotter has not opened a movie or GIF file.'')
      | Some path \<Rightarrow>
          Inr (fs(path \<mapsto> (case fs path of None \<Rightarrow> [] | Some frames \<Rightarrow> frames) @ [scene])))"

definition close :: "Plotter \<Rightarrow> Plotter" where
  "close p = p\<lparr>mwriter := None\<rparr>"

subsection \<open>The global variables of the script\<close>

record ('m, 'V, 'bc, 'M) state =
  domain :: 'm
  V :: 'V
  fdim :: int
  boundary_facets :: "nat list"
  bc :: 'bc
  f_expr :: TimeDependentSource
  u_n :: vec
  t :: real
  f :: vec
  A :: 'M
  b :: vec
  u_sol :: vec
  warped :: vec
  plotter :: Plotter
  files :: filesystem
  solver :: "'M KSP"

text \<open>\<open>fem.Function(V)\<close>: a new function of the space, all entries 0.\<close>

definition Function :: "('m, 'V, 'bc, 'M) library \<Rightarrow> 'V \<Rightarrow> vec" where
  "Function lib W = replicate (num_dofs lib W) 0"

text \<open>The arrays the coefficients of \<open>L\<close> refer to, read at assembly time.\<close>

definition coefficients :: "vec \<Rightarrow> vec \<Rightarrow> coefficient \<Rightarrow> vec" where
  "coefficients u_n_array f_array c = (case c of u_n_ref \<Rightarrow> u_n_array | f_ref \<Rightarrow> f_array)"

subsection \<open>The cells before the time loop\<close>

text \<open>The statements of the notebook's cells, in order, up to the creation of the linear
  solver. (The cell that builds the plotting geometry from the dof map only reads the
  library; \<open>start_xvfb\<close>, the construction of the grid and \<open>add_mesh\<close> with its rendering
  options touch none of the variables below; they are left out.) A new PETSc solver has
  the library's default types until the script sets them.\<close>

definition initialise :: "('m, 'V, 'bc, 'M) library \<Rightarrow> error + ('m, 'V, 'bc, 'M) state" where
  "initialise lib =
     then_do (create_rectangle lib ((0, 0), (2, 2)) (nx, ny) triangle) (\<lambda>domain.
     then_do (functionspace lib domain (''CR'', 1)) (\<lambda>V.
     let fdim = topology_dim lib domain - 2 in
     then_do (locate_entities_boundary lib domain fdim (\<lambda>x. True)) (\<lambda>boundary_facets.
     then_do (locate_dofs_topological lib V fdim boundary_facets) (\<lambda>dofs.
     then_do (dirichletbc lib 0 dofs V) (\<lambda>bc.
     let f_expr = \<lparr>TimeDependentSource.t = 0\<rparr>;
         u_n = Function lib V in
     then_do (interpolate lib V initial_condition) (\<lambda>vals.
     let u_n = fill u_n vals;
         t = 0;
         f = Function lib V in
     then_do (interpolate lib V (eval f_expr)) (\<lambda>vals.
     let f = fill f vals in
     then_do (assemble_matrix lib (a V)) (\<lambda>A.
     then_do (Mat_assemble lib A) (\<lambda>A.
     then_do (create_vector lib (L V)) (\<lambda>b.
     let u_sol = Function lib V in
     then_do (interpolate lib V initial_condition) (\<lambda>vals.
     let u_sol = fill u_sol vals;
         plotter = \<lparr>mwriter = None\<rparr>;
         (plotter, files) = open_gif plotter ''u_sol.gif'' Map.empty;
         warped = u_sol;
         solver = \<lparr>operators = None, ksp_type = GMRES, pc_type = ILU\<rparr>;
         solver = solver\<lparr>operators := Some A\<rparr>;
         solver = solver\<lparr>ksp_type := PREONLY\<rparr>;
         solver = solver\<lparr>pc_type := LU\<rparr>
     in Inr \<lparr>domain = domain, V = V, fdim = fdim, boundary_facets = boundary_facets,
              bc = bc, f_expr = f_expr, u_n = u_n, t = t, f = f, A = A, b = b,
              u_sol = u_sol, warped = warped, plotter = plotter, files = files,
              solver = solver\<rparr>)))))))))))"

subsection \<open>The time loop\<close>

text \<open>One pass of the body of \<open>while t < T\<close>, statement by statement; a primed name is
  the new value of the variable. (The two statements that recompute the coordinates of the
  plotted mesh, \<open>new_warped = ...\<close> and \<open>warped.points[:, :] = ...\<close>, touch none of the variables
  below and are left out.)\<close>

definition body ::
  "('m, 'V, 'bc, 'M) library \<Rightarrow> ('m, 'V, 'bc, 'M) state \<Rightarrow> error + ('m, 'V, 'bc, 'M) state" where
  "body lib s =
     (let t' = t s + dt;
          f_expr' = (f_expr s)\<lparr>TimeDependentSource.t := t'\<rparr> in
      then_do (interpolate lib (V s) (eval f_expr')) (\<lambda>vals.
      let f' = fill (f s) vals;
          b' = set_all (b s) 0 in
      then_do (assemble_vector lib b' (L (V s)) (coefficients (u_n s) f')) (\<lambda>vals.
      let b' = fill b' vals in
      then_do (apply_lifting lib b' [a (V s)] [[bc s]]) (\<lambda>vals.
      let b' = fill b' vals in
      then_do (ghostUpdate lib b' ADD_VALUES REVERSE) (\<lambda>vals.
      let b' = fill b' vals in
      then_do (set_bc lib b' [bc s]) (\<lambda>vals.
      let b' = fill b' vals in
      then_do (solve lib (solver s) b' (u_sol s)) (\<lambda>vals.
      let u_sol' = fill (u_sol s) vals in
      then_do (scatter_forward lib u_sol') (\<lambda>vals.
      let u_sol' = fill u_sol' vals in
      then_do (assign_slice (u_n s) u_sol') (\<lambda>u_n'.
      then_do (assign_slice (warped s) u_sol') (\<lambda>warped'.
      then_do (write_frame (plotter s) warped' (files s)) (\<lambda>files'.
      Inr (s\<lparr>t := t', f_expr := f_expr', f := f', b := b', u_sol := u_sol', u_n := u_n',
              warped := warped', files := files'\<rparr>))))))))))))"

text \<open>The loop \<open>while t < T\<close>; its termination is proved below, after the facts about one
  pass that the proof needs.\<close>

function time_loop ::
  "('m, 'V, 'bc, 'M) library \<Rightarrow> ('m, 'V, 'bc, 'M) state \<Rightarrow> error + ('m, 'V, 'bc, 'M) state" where
  "time_loop lib s =
     (if t s < T
      then (case body lib s of Inl e \<Rightarrow> Inl e | Inr s' \<Rightarrow> time_loop lib s')
      else Inr s)"
  by pat_completeness auto

text \<open>The whole script: the cells above, the loop, \<open>plotter.close()\<close>. (The final \<open>print\<close>
  writes to the standard output only.)\<close>

definition main :: "('m, 'V, 'bc, 'M) library \<Rightarrow> error + ('m, 'V, 'bc, 'M) state" where
  "main lib =
     then_do (initialise lib) (\<lambda>s.
     then_do (time_loop lib s) (\<lambda>s.
     Inr (s\<lparr>plotter := close (plotter s)\<rparr>)))"

subsection \<open>Passes of the loop body, and a small library to run the script on\<close>

text \<open>\<open>passes k lib s\<close> runs the body of the loop \<open>k\<close> times from \<open>s\<close>, stopping at the first
  exception.\<close>

fun passes ::
  "nat \<Rightarrow> ('m, 'V, 'bc, 'M) library \<Rightarrow> ('m, 'V, 'bc, 'M) state \<Rightarrow> error + ('m, 'V, 'bc, 'M) state" where
  "passes 0 lib s = Inr s"
| "passes (Suc k) lib s = (case body lib s of Inl e \<Rightarrow> Inl e | Inr s' \<Rightarrow> passes k lib s')"

text \<open>What the script's own copies and \<open>write_frame\<close> need in order not to raise: the
  arrays of \<open>u_n\<close>, \<open>u_sol\<close> and the plotted data have one size, and a GIF is open.\<close>

definition ready :: "('m, 'V, 'bc, 'M) state \<Rightarrow> bool" where
  "ready s \<longleftrightarrow>
     length (u_n s) = length (u_sol s) \<and> length (warped s) = length (u_sol s) \<and>
     mwriter (plotter s) \<noteq> None"

text \<open>A library on which the script runs to its end: a space with two degrees of freedom,
  at the points \<open>(0, 1)\<close> and \<open>(1, 1)\<close>, and the identity as the system matrix.\<close>

definition demo :: "(unit, unit, nat list, real list) library" where
  "demo =
     \<lparr>create_rectangle = (\<lambda>corners n cell. Inr ()),
      functionspace = (\<lambda>m element. Inr ()),
      topology_dim = (\<lambda>m. 2),
      num_dofs = (\<lambda>W. 2),
      locate_entities_boundary = (\<lambda>m d marker. Inr (if d = 1 then [0] else [])),
      locate_dofs_topological = (\<lambda>W d entities. Inr (if d = 1 then entities else [])),
      dirichletbc = (\<lambda>g dofs W. Inr dofs),
      interpolate = (\<lambda>W g. Inr (\<lambda>i. g (real i, 1))),
      assemble_matrix = (\<lambda>F. Inr [1, 1]),
      Mat_assemble = (\<lambda>M. Inr M),
      create_vector = (\<lambda>F. Inr [0, 0]),
      assemble_vector = (\<lambda>b0 F c. Inr (\<lambda>i. b0 ! i + (c u_n_ref ! i + dt * c f_ref ! i))),
      apply_lifting = (\<lambda>b0 Fs bcs. Inr (\<lambda>i. b0 ! i)),
      ghostUpdate = (\<lambda>b0 addv mode. Inr (\<lambda>i. b0 ! i)),
      set_bc = (\<lambda>b0 bcs. Inr (\<lambda>i. if i \<in> set (concat bcs) then 0 else b0 ! i)),
      solve = (\<lambda>ksp b0 x0. Inr (\<lambda>i. b0 ! i)),
      scatter_forward = (\<lambda>x0. Inr (\<lambda>i. x0 ! i))\<rparr>"

text \<open>The state the cells before the loop leave on this library, and the state after the
  first pass of the loop from it.\<close>

definition demo_start :: "(unit, unit, nat list, real list) state" where
  "demo_start =
     \<lparr>domain = (), V = (), fdim = 0, boundary_facets = [], bc = [],
      f_expr = \<lparr>TimeDependentSource.t = 0\<rparr>, u_n = [0, 1], t = 0, f = [2, 3],
      A = [1, 1], b = [0, 0], u_sol = [0, 1], warped = [0, 1],
      plotter = \<lparr>mwriter = Some ''u_sol.gif''\<rparr>, files = [''u_sol.gif'' \<mapsto> []],
      solver = \<lparr>operators = Some [1, 1], ksp_type = PREONLY, pc_type = LU\<rparr>\<rparr>"

definition demo_first :: "(unit, unit, nat list, real list) state" where
  "demo_first =
     \<lparr>domain = (), V = (), fdim = 0, boundary_facets = [], bc = [],
      f_expr = \<lparr>TimeDependentSource.t = dt\<rparr>,
      u_n = [dt * (2 * exp (- dt)), 1 + dt * (3 * exp (- dt))], t = dt,
      f = [2 * exp (- dt), 3 * exp (- dt)],
      A = [1, 1], b = [dt * (2 * exp (- dt)), 1 + dt * (3 * exp (- dt))],
      u_sol = [dt * (2 * exp (- dt)), 1 + dt * (3 * exp (- dt))],
      warped = [dt * (2 * exp (- dt)), 1 + dt * (3 * exp (- dt))],
      plotter = \<lparr>mwriter = Some ''u_sol.gif''\<rparr>,
      files = [''u_sol.gif'' \<mapsto> [[dt * (2 * exp (- dt)), 1 + dt * (3 * exp (- dt))]]],
      solver = \<lparr>operators = Some [1, 1], ksp_type = PREONLY, pc_type = LU\<rparr>\<rparr>"

section \<open>Properties\<close>

subsection \<open>Auxiliary facts\<close>

lemma length_fill [simp]: "length (fill buf vals) = length buf"
  by (simp add: fill_def)

lemma fill_fill [simp]: "fill (fill buf g) h = fill buf h"
  by (simp add: fill_def)

lemma length_set_all [simp]: "length (set_all buf c) = length buf"
  by (simp add: set_all_def)

lemma fill_set_all [simp]: "fill (set_all buf c) h = fill buf h"
  by (simp add: fill_def)

lemma then_do_Inr: "then_do m k = Inr y \<longleftrightarrow> (\<exists>x. m = Inr x \<and> k x = Inr y)"
  by (cases m) (simp_all add: then_do_def)

lemma then_do_Inl: "then_do m k = Inl e \<longleftrightarrow> m = Inl e \<or> (\<exists>x. m = Inr x \<and> k x = Inl e)"
  by (cases m) (simp_all add: then_do_def)

lemma body_Inr:
  "body lib s = Inr s' \<longleftrightarrow>
     (\<exists>vf vb1 vb2 vb3 vb4 vx vy arr_n arr_w fs.
        interpolate lib (V s) (eval ((f_expr s)\<lparr>TimeDependentSource.t := t s + dt\<rparr>)) = Inr vf \<and>
        assemble_vector lib (set_all (b s) 0) (L (V s)) (coefficients (u_n s) (fill (f s) vf)) = Inr vb1 \<and>
        apply_lifting lib (fill (b s) vb1) [a (V s)] [[bc s]] = Inr vb2 \<and>
        ghostUpdate lib (fill (b s) vb2) ADD_VALUES REVERSE = Inr vb3 \<and>
        set_bc lib (fill (b s) vb3) [bc s] = Inr vb4 \<and>
        solve lib (solver s) (fill (b s) vb4) (u_sol s) = Inr vx \<and>
        scatter_forward lib (fill (u_sol s) vx) = Inr vy \<and>
        assign_slice (u_n s) (fill (u_sol s) vy) = Inr arr_n \<and>
        assign_slice (warped s) (fill (u_sol s) vy) = Inr arr_w \<and>
        write_frame (plotter s) arr_w (files s) = Inr fs \<and>
        s' = s\<lparr>t := t s + dt, f_expr := (f_expr s)\<lparr>TimeDependentSource.t := t s + dt\<rparr>,
                f := fill (f s) vf, b := fill (b s) vb4, u_sol := fill (u_sol s) vy,
                u_n := arr_n, warped := arr_w, files := fs\<rparr>)"
  by (auto simp add: body_def Let_def then_do_Inr)

lemma body_t: "body lib s = Inr s' \<Longrightarrow> t s' = t s + dt"
  by (auto simp add: body_Inr)

lemma dt_pos: "0 < dt"
  by (simp add: dt_def T_def num_steps_def)

text \<open>The loop terminates: each pass advances \<open>t\<close> by \<open>dt > 0\<close>, so the number of steps
  of size \<open>dt\<close> left below \<open>T\<close> decreases.\<close>

termination time_loop
proof (relation "measure (\<lambda>(lib, s). nat \<lceil>(T - t s) / dt\<rceil>)")
  show "wf (measure (\<lambda>(lib, s). nat \<lceil>(T - t s) / dt\<rceil>))"
    by simp
next
  fix lib :: "('m, 'V, 'bc, 'M) library" and s s' :: "('m, 'V, 'bc, 'M) state"
  assume guard: "t s < T" and step: "body lib s = Inr s'"
  have "(T - t s') / dt = (T - t s) / dt - 1"
    using body_t [OF step] dt_pos by (simp add: field_simps)
  moreover have "0 < (T - t s) / dt"
    using guard dt_pos by simp
  ultimately have "nat \<lceil>(T - t s') / dt\<rceil> < nat \<lceil>(T - t s) / dt\<rceil>"
    by simp
  then show "((lib, s'), (lib, s)) \<in> measure (\<lambda>(lib, s). nat \<lceil>(T - t s) / dt\<rceil>)"
    by simp
qed

declare time_loop.simps [simp del]

lemma passes_t: "passes k lib s = Inr s' \<Longrightarrow> t s' = t s + real k * dt"
proof (induction k arbitrary: s)
  case 0
  then show ?case by simp
next
  case (Suc k)
  from Suc.prems obtain s1 where s1: "body lib s = Inr s1" and rest: "passes k lib s1 = Inr s'"
    by (auto split: sum.splits)
  from Suc.IH [OF rest] body_t [OF s1] show ?case
    by (simp add: algebra_simps)
qed

lemma time_loop_passes: "t s = T - real n * dt \<Longrightarrow> time_loop lib s = passes n lib s"
proof (induction n arbitrary: s)
  case 0
  then show ?case by (simp add: time_loop.simps [of lib s])
next
  case (Suc n)
  have "0 \<le> real n * dt"
    using dt_pos by simp
  moreover have "t s = T - real n * dt - dt"
    using Suc.prems by (simp add: algebra_simps)
  ultimately have guard: "t s < T"
    using dt_pos by linarith
  show ?case
  proof (cases "body lib s")
    case (Inl e)
    with guard show ?thesis by (simp add: time_loop.simps [of lib s])
  next
    case (Inr s1)
    have "t s1 = T - real n * dt"
      using body_t [OF Inr] Suc.prems by (simp add: algebra_simps)
    from Suc.IH [OF this] Inr guard show ?thesis
      by (simp add: time_loop.simps [of lib s])
  qed
qed

lemma T_steps: "T = real num_steps * dt"
  by (simp add: dt_def num_steps_def)

lemma initialise_Inr:
  "initialise lib = Inr s \<longleftrightarrow>
     (\<exists>m W facets dofs bc0 vu vf A0 A1 b0.
        create_rectangle lib ((0, 0), (2, 2)) (nx, ny) triangle = Inr m \<and>
        functionspace lib m (''CR'', 1) = Inr W \<and>
        locate_entities_boundary lib m (topology_dim lib m - 2) (\<lambda>x. True) = Inr facets \<and>
        locate_dofs_topological lib W (topology_dim lib m - 2) facets = Inr dofs \<and>
        dirichletbc lib 0 dofs W = Inr bc0 \<and>
        interpolate lib W initial_condition = Inr vu \<and>
        interpolate lib W (eval \<lparr>TimeDependentSource.t = 0\<rparr>) = Inr vf \<and>
        assemble_matrix lib (a W) = Inr A0 \<and>
        Mat_assemble lib A0 = Inr A1 \<and>
        create_vector lib (L W) = Inr b0 \<and>
        s = \<lparr>domain = m, V = W, fdim = topology_dim lib m - 2, boundary_facets = facets,
              bc = bc0, f_expr = \<lparr>TimeDependentSource.t = 0\<rparr>,
              u_n = fill (Function lib W) vu, t = 0, f = fill (Function lib W) vf, A = A1,
              b = b0, u_sol = fill (Function lib W) vu, warped = fill (Function lib W) vu,
              plotter = \<lparr>mwriter = Some ''u_sol.gif''\<rparr>,
              files = [''u_sol.gif'' \<mapsto> []],
              solver = \<lparr>operators = Some A1, ksp_type = PREONLY, pc_type = LU\<rparr>\<rparr>)"
  by (auto simp add: initialise_def Let_def then_do_Inr open_gif_def)

lemma initialise_t: "initialise lib = Inr s \<Longrightarrow> t s = 0"
  by (auto simp add: initialise_Inr)

lemma initialise_ready: "initialise lib = Inr s \<Longrightarrow> ready s"
  by (auto simp add: initialise_Inr ready_def)

lemma body_ready: "body lib s = Inr s' \<Longrightarrow> ready s \<Longrightarrow> ready s'"
  by (auto simp add: body_Inr ready_def assign_slice_def split: if_splits)

lemma body_demo: "ready s \<Longrightarrow> \<exists>s'. body demo s = Inr s'"
  by (auto simp add: body_Inr demo_def ready_def assign_slice_def write_frame_def)

lemma passes_demo: "ready s \<Longrightarrow> \<exists>s'. passes k demo s = Inr s'"
proof (induction k arbitrary: s)
  case 0
  then show ?case by simp
next
  case (Suc k)
  from body_demo [OF Suc.prems] obtain s1 where s1: "body demo s = Inr s1" ..
  from Suc.IH [OF body_ready [OF s1 Suc.prems]] s1 show ?case by simp
qed

lemma initialise_demo: "\<exists>s. initialise demo = Inr s"
  by (simp add: initialise_Inr demo_def)

lemma fill_2 [simp]: "fill [x0, x1] g = [g 0, g 1]"
  by (simp add: fill_def upt_rec [of 0] upt_rec [of 1] upt_rec [of 2])

lemma passes_ready: "passes k lib s = Inr s' \<Longrightarrow> ready s \<Longrightarrow> ready s'"
proof (induction k arbitrary: s)
  case 0
  then show ?case by simp
next
  case (Suc k)
  from Suc.prems(1) obtain s1 where s1: "body lib s = Inr s1" and rest: "passes k lib s1 = Inr s'"
    by (auto split: sum.splits)
  from Suc.IH [OF rest body_ready [OF s1 Suc.prems(2)]] show ?case .
qed

lemma run_ready: "initialise lib = Inr s0 \<Longrightarrow> passes k lib s0 = Inr s \<Longrightarrow> ready s"
  by (rule passes_ready [OF _ initialise_ready])

lemma initialise_demo_value:
  "initialise demo =
     Inr \<lparr>domain = (), V = (), fdim = 0, boundary_facets = [], bc = [],
          f_expr = \<lparr>TimeDependentSource.t = 0\<rparr>, u_n = [0, 1], t = 0, f = [2, 3],
          A = [1, 1], b = [0, 0], u_sol = [0, 1], warped = [0, 1],
          plotter = \<lparr>mwriter = Some ''u_sol.gif''\<rparr>, files = [''u_sol.gif'' \<mapsto> []],
          solver = \<lparr>operators = Some [1, 1], ksp_type = PREONLY, pc_type = LU\<rparr>\<rparr>"
  by (simp add: initialise_Inr demo_def Function_def initial_condition_def eval_def
      numeral_2_eq_2)

lemma assign_slice_same: "length src = length dst \<Longrightarrow> assign_slice dst src = Inr arr \<longleftrightarrow> arr = src"
  by (auto simp add: assign_slice_def)

lemma time_loop_initial: "initialise lib = Inr s \<Longrightarrow> time_loop lib s = passes num_steps lib s"
  by (rule time_loop_passes) (simp add: initialise_t T_steps)

lemma main_Inr:
  "main lib = Inr sf \<longleftrightarrow>
     (\<exists>s0 s1. initialise lib = Inr s0 \<and> passes num_steps lib s0 = Inr s1 \<and>
        sf = s1\<lparr>plotter := close (plotter s1)\<rparr>)"
  by (auto simp add: main_def then_do_Inr time_loop_initial)

lemma body_frame:
  "body lib s = Inr s' \<Longrightarrow>
     s' = s\<lparr>t := t s', f_expr := f_expr s', f := f s', b := b s', u_sol := u_sol s',
            u_n := u_n s', warped := warped s', files := files s'\<rparr>"
  by (auto simp add: body_Inr)

lemma body_keeps:
  "body lib s = Inr s' \<Longrightarrow>
     domain s' = domain s \<and> V s' = V s \<and> fdim s' = fdim s \<and>
     boundary_facets s' = boundary_facets s \<and> bc s' = bc s \<and> A s' = A s \<and>
     plotter s' = plotter s \<and> solver s' = solver s"
  by (auto simp add: body_Inr)

lemma passes_keeps:
  "passes k lib s = Inr s' \<Longrightarrow>
     domain s' = domain s \<and> V s' = V s \<and> fdim s' = fdim s \<and>
     boundary_facets s' = boundary_facets s \<and> bc s' = bc s \<and> A s' = A s \<and>
     plotter s' = plotter s \<and> solver s' = solver s"
proof (induction k arbitrary: s)
  case 0
  then show ?case by simp
next
  case (Suc k)
  from Suc.prems obtain s1 where s1: "body lib s = Inr s1" and rest: "passes k lib s1 = Inr s'"
    by (auto split: sum.splits)
  from Suc.IH [OF rest] body_keeps [OF s1] show ?case by simp
qed

lemma body_files:
  "body lib s = Inr s' \<Longrightarrow> mwriter (plotter s) = Some path \<Longrightarrow> files s path = Some frames \<Longrightarrow>
     files s' = (files s)(path \<mapsto> frames @ [warped s'])"
  by (auto simp add: body_Inr write_frame_def)

lemma passes_files:
  "passes k lib s = Inr s' \<Longrightarrow> mwriter (plotter s) = Some path \<Longrightarrow> files s path = Some frames \<Longrightarrow>
     dom (files s') = dom (files s) \<and>
     (\<exists>new. files s' path = Some (frames @ new) \<and> length new = k)"
proof (induction k arbitrary: s frames)
  case 0
  then show ?case by simp
next
  case (Suc k)
  from Suc.prems(1) obtain s1 where s1: "body lib s = Inr s1" and rest: "passes k lib s1 = Inr s'"
    by (auto split: sum.splits)
  have fs1: "files s1 = (files s)(path \<mapsto> frames @ [warped s1])"
    by (rule body_files [OF s1 Suc.prems(2,3)])
  have pl1: "mwriter (plotter s1) = Some path"
    using body_keeps [OF s1] Suc.prems(2) by simp
  have "files s1 path = Some (frames @ [warped s1])"
    by (simp add: fs1)
  from Suc.IH [OF rest pl1 this] obtain new
    where d: "dom (files s') = dom (files s1)"
      and n: "files s' path = Some ((frames @ [warped s1]) @ new)" "length new = k"
    by blast
  have "dom (files s1) = dom (files s)"
    using Suc.prems(3) by (auto simp add: fs1)
  moreover have "files s' path = Some (frames @ (warped s1 # new))" "length (warped s1 # new) = Suc k"
    using n by simp_all
  ultimately show ?case using d by blast
qed

lemma passes_add:
  "passes (j + k) lib s = (case passes j lib s of Inl e \<Rightarrow> Inl e | Inr s1 \<Rightarrow> passes k lib s1)"
  by (induction j arbitrary: s) (auto split: sum.splits)

lemma passes_fails:
  assumes "passes k lib s = Inr s1" and "body lib s1 = Inl e" and "k < n"
  shows "passes n lib s = Inl e"
proof -
  from \<open>k < n\<close> obtain j where n: "n = k + Suc j"
    by (auto simp add: less_iff_Suc_add)
  show ?thesis
    unfolding n passes_add using assms(1,2) by simp
qed

lemma passes_Inl:
  "passes n lib s = Inl e \<Longrightarrow> \<exists>k s1. k < n \<and> passes k lib s = Inr s1 \<and> body lib s1 = Inl e"
proof (induction n arbitrary: s)
  case 0
  then show ?case by simp
next
  case (Suc n)
  show ?case
  proof (cases "body lib s")
    case (Inl e')
    with Suc.prems have "body lib s = Inl e" by simp
    then have "0 < Suc n \<and> passes 0 lib s = Inr s \<and> body lib s = Inl e" by simp
    then show ?thesis by blast
  next
    case (Inr s1)
    with Suc.prems have "passes n lib s1 = Inl e" by simp
    from Suc.IH [OF this] obtain k s2 where "k < n" "passes k lib s1 = Inr s2" "body lib s2 = Inl e"
      by blast
    with Inr have "Suc k < Suc n \<and> passes (Suc k) lib s = Inr s2 \<and> body lib s2 = Inl e"
      by simp
    then show ?thesis by blast
  qed
qed

lemma main_Inl:
  "main lib = Inl e \<longleftrightarrow>
     initialise lib = Inl e \<or>
     (\<exists>s0 k s. initialise lib = Inr s0 \<and> k < num_steps \<and> passes k lib s0 = Inr s \<and>
        body lib s = Inl e)"
proof
  assume "main lib = Inl e"
  then consider "initialise lib = Inl e"
    | s0 where "initialise lib = Inr s0" "passes num_steps lib s0 = Inl e"
    by (auto simp add: main_def then_do_Inl time_loop_initial)
  then show "initialise lib = Inl e \<or>
     (\<exists>s0 k s. initialise lib = Inr s0 \<and> k < num_steps \<and> passes k lib s0 = Inr s \<and>
        body lib s = Inl e)"
  proof cases
    case 1
    then show ?thesis by simp
  next
    case 2
    from passes_Inl [OF 2(2)] 2(1) show ?thesis by blast
  qed
next
  assume "initialise lib = Inl e \<or>
     (\<exists>s0 k s. initialise lib = Inr s0 \<and> k < num_steps \<and> passes k lib s0 = Inr s \<and>
        body lib s = Inl e)"
  then show "main lib = Inl e"
  proof
    assume "initialise lib = Inl e"
    then show ?thesis by (simp add: main_def then_do_def)
  next
    assume "\<exists>s0 k s. initialise lib = Inr s0 \<and> k < num_steps \<and> passes k lib s0 = Inr s \<and>
        body lib s = Inl e"
    then obtain s0 k s where init: "initialise lib = Inr s0" and "k < num_steps"
      and "passes k lib s0 = Inr s" and "body lib s = Inl e"
      by blast
    then have "passes num_steps lib s0 = Inl e"
      by (auto intro: passes_fails)
    with init show ?thesis
      by (simp add: main_def then_do_def time_loop_initial)
  qed
qed


lemma expr_val_Product: "expr_val env (Product e1 e2) = (\<lambda>x. expr_val env e1 x * expr_val env e2 x)"
  by (rule ext) simp

lemma a_meaning:
  assumes "\<forall>c g. dx (\<lambda>x. c * g x) = c * dx g"
  shows "form_val dx env (a W) =
     dx (\<lambda>x. val (env (TrialFunction W)) x * val (env (TestFunction W)) x) +
     dt * dx (\<lambda>x. dot (grad (env (TrialFunction W)) x) (grad (env (TestFunction W)) x))"
proof -
  have "dx (\<lambda>x. dt * dot (grad (env (TrialFunction W)) x) (grad (env (TestFunction W)) x)) =
      dt * dx (\<lambda>x. dot (grad (env (TrialFunction W)) x) (grad (env (TestFunction W)) x))"
    using assms [rule_format, of dt
        "\<lambda>x. dot (grad (env (TrialFunction W)) x) (grad (env (TestFunction W)) x)"] .
  then show ?thesis
    by (simp add: a_def u_def v_def expr_val_Product)
qed

lemma L_meaning:
  "form_val dx env (L W) =
     dx (\<lambda>x. (val (env (Coefficient u_n_ref)) x + dt * val (env (Coefficient f_ref)) x) *
              val (env (TestFunction W)) x)"
  by (simp add: L_def v_def expr_val_Product)

lemma initialise_space:
  "initialise lib = Inr s \<Longrightarrow>
     (\<exists>m. create_rectangle lib ((0, 0), (2, 2)) (nx, ny) triangle = Inr m \<and>
        functionspace lib m (''CR'', 1) = Inr (V s)) \<and>
     (\<exists>A0. assemble_matrix lib (a (V s)) = Inr A0 \<and> Mat_assemble lib A0 = Inr (A s)) \<and>
     solver s = \<lparr>operators = Some (A s), ksp_type = PREONLY, pc_type = LU\<rparr>"
  by (auto simp add: initialise_Inr)

lemma initialise_demo_start: "initialise demo = Inr demo_start"
  by (simp add: initialise_demo_value demo_start_def)

lemma body_demo_start: "body demo demo_start = Inr demo_first"
  by (simp add: body_def demo_def demo_start_def demo_first_def Let_def then_do_def
      set_all_def coefficients_def eval_def assign_slice_def write_frame_def numeral_2_eq_2)

lemma coefficients_binding:
  "coefficients u_n_array f_array u_n_ref = u_n_array \<and>
   coefficients u_n_array f_array f_ref = f_array"
  by (simp add: coefficients_def)

subsection \<open>The number of passes of the time loop\<close>

text \<open>C5: the loop \<open>while t < T\<close>, with \<open>t\<close> advanced by \<open>dt = T / num_steps > 0\<close> at the start
  of each pass (\<open>T = 3.0\<close>, \<open>num_steps = 200\<close>), terminates: \<open>time_loop\<close> is a total function
  (its termination proof is among the auxiliary facts), and started from the state the cells
  before it leave, it makes exactly \<open>num_steps\<close> passes. The guard holds before each of
  the first \<open>num_steps\<close> passes and fails after the last one, where \<open>t = T\<close>. (When a
  library call raises in some pass, the loop ends there with that exception.)\<close>

theorem time_loop_num_steps:
  "initialise lib = Inr s \<Longrightarrow>
     T = 3 \<and> num_steps = 200 \<and> dt = T / real num_steps \<and> 0 < dt \<and>
     time_loop lib s = passes num_steps lib s \<and>
     (\<forall>k s'. k < num_steps \<longrightarrow> passes k lib s = Inr s' \<longrightarrow> t s' < T) \<and>
     (\<forall>s'. passes num_steps lib s = Inr s' \<longrightarrow> t s' = T \<and> \<not> t s' < T)"
proof -
  assume init: "initialise lib = Inr s"
  have t0: "t s = 0" by (rule initialise_t [OF init])
  have loop: "time_loop lib s = passes num_steps lib s"
    by (rule time_loop_passes) (simp add: t0 T_steps)
  have before: "t s' < T" if "k < num_steps" "passes k lib s = Inr s'" for k s'
  proof -
    have "t s' = real k * dt" using passes_t [OF that(2)] t0 by simp
    also have "\<dots> < real num_steps * dt" using that(1) dt_pos by simp
    finally show ?thesis by (simp add: T_steps)
  qed
  have after: "t s' = T" if "passes num_steps lib s = Inr s'" for s'
    using passes_t [OF that] t0 by (simp add: T_steps)
  show ?thesis
    using loop before after dt_pos by (auto simp add: T_def num_steps_def dt_def)
qed

theorem time_loop_num_steps_witness:
  "\<exists>s. initialise demo = Inr s \<and> time_loop demo s = passes num_steps demo s \<and> t s < T \<and>
       (\<exists>s'. time_loop demo s = Inr s' \<and> t s' = T)"
proof -
  from initialise_demo obtain s where init: "initialise demo = Inr s" ..
  note fact = time_loop_num_steps [OF init]
  from passes_demo [OF initialise_ready [OF init]]
  obtain s' where fin: "passes num_steps demo s = Inr s'" ..
  have "t s < T" using fact by (auto dest: spec [of _ 0])
  moreover have "t s' = T" using fact fin by blast
  ultimately show ?thesis using init fact fin by auto
qed

subsection \<open>The initial condition\<close>

text \<open>C7: before the time loop starts, \<open>u_n\<close> and \<open>u_sol\<close> are both initialised by
  interpolating the same initial condition \<open>u0(x) = x0*x1*(x0-2)*(x1-2)\<close> into \<open>V\<close>, so at
  \<open>t = 0\<close> the two arrays are equal.\<close>

theorem initial_condition_both:
  "initialise lib = Inr s \<Longrightarrow>
     t s = 0 \<and> u_n s = u_sol s \<and>
     (\<exists>vals. interpolate lib (V s) initial_condition = Inr vals \<and>
        u_n s = fill (Function lib (V s)) vals \<and> u_sol s = fill (Function lib (V s)) vals) \<and>
     (\<forall>x0 x1. initial_condition (x0, x1) = x0 * x1 * (x0 - 2) * (x1 - 2))"
  by (auto simp add: initialise_Inr initial_condition_def)

theorem initial_condition_both_witness:
  "\<exists>s. initialise demo = Inr s \<and> t s = 0 \<and> u_n s = [0, 1] \<and> u_sol s = [0, 1]"
proof -
  from initialise_demo obtain s where init: "initialise demo = Inr s" ..
  from initial_condition_both [OF init] init show ?thesis
    by (auto simp add: initialise_demo_value)
qed

subsection \<open>The update of the previous solution\<close>

text \<open>C3: in every pass of the loop, after the linear solve, the array of \<open>u_n\<close> is set
  equal, element for element, to the array of \<open>u_sol\<close> by the one slice assignment; it is
  the only statement of the pass that writes \<open>u_n\<close>: the calls before it (the interpolation
  of \<open>f\<close>, the assembly of the right-hand side, the solve) still read the array the pass
  started with.\<close>

theorem u_n_updated_from_u_sol:
  "initialise lib = Inr s0 \<Longrightarrow> passes k lib s0 = Inr s \<Longrightarrow> body lib s = Inr s' \<Longrightarrow>
     u_n s' = u_sol s' \<and> length (u_n s') = length (u_n s) \<and>
     (\<forall>i<length (u_n s'). u_n s' ! i = u_sol s' ! i) \<and>
     assign_slice (u_n s) (u_sol s') = Inr (u_n s') \<and>
     (\<exists>vf vb vx.
        interpolate lib (V s) (eval (f_expr s')) = Inr vf \<and>
        assemble_vector lib (set_all (b s) 0) (L (V s)) (coefficients (u_n s) (f s')) = Inr vb \<and>
        solve lib (solver s) (b s') (u_sol s) = Inr vx)"
proof -
  assume init: "initialise lib = Inr s0" and run: "passes k lib s0 = Inr s"
    and step: "body lib s = Inr s'"
  have "ready s" by (rule run_ready [OF init run])
  then have len: "length (u_n s) = length (u_sol s)"
    by (simp add: ready_def)
  from step len show ?thesis
    by (auto simp add: body_Inr assign_slice_same)
qed

theorem u_n_updated_from_u_sol_witness:
  "\<exists>s0 s s'. initialise demo = Inr s0 \<and> passes 1 demo s0 = Inr s \<and> body demo s = Inr s' \<and>
     u_n s' = u_sol s' \<and> length (u_n s') = length (u_n s) \<and>
     assign_slice (u_n s) (u_sol s') = Inr (u_n s')"
proof -
  from initialise_demo obtain s0 where init: "initialise demo = Inr s0" ..
  from passes_demo [OF initialise_ready [OF init]]
  obtain s where run: "passes 1 demo s0 = Inr s" ..
  from body_demo [OF run_ready [OF init run]]
  obtain s' where step: "body demo s = Inr s'" ..
  from u_n_updated_from_u_sol [OF init run step] init run step show ?thesis
    by blast
qed

subsection \<open>The reset of the right-hand side\<close>

text \<open>C10: in every pass \<open>b\<close> is set to zero before the linear form is assembled into it,
  so the \<open>b\<close> of the pass is assembled from the zero vector, the current \<open>u_n\<close> and the
  current \<open>f\<close>, and whatever \<open>b\<close> held when the pass began has no influence on the pass.\<close>

theorem rhs_reset_each_pass:
  "body lib s = Inr s' \<Longrightarrow>
     set_all (b s) 0 = replicate (length (b s)) 0 \<and>
     (\<exists>vb1 vb2 vb3 vb4.
        assemble_vector lib (replicate (length (b s)) 0) (L (V s))
          (coefficients (u_n s) (f s')) = Inr vb1 \<and>
        apply_lifting lib (fill (b s) vb1) [a (V s)] [[bc s]] = Inr vb2 \<and>
        ghostUpdate lib (fill (b s) vb2) ADD_VALUES REVERSE = Inr vb3 \<and>
        set_bc lib (fill (b s) vb3) [bc s] = Inr vb4 \<and>
        b s' = fill (b s) vb4) \<and>
     (\<forall>b0. length b0 = length (b s) \<longrightarrow> body lib (s\<lparr>b := b0\<rparr>) = Inr s')"
proof (intro conjI allI impI)
  assume step: "body lib s = Inr s'"
  show "set_all (b s) 0 = replicate (length (b s)) 0"
    by (simp add: set_all_def)
  from step show "\<exists>vb1 vb2 vb3 vb4.
        assemble_vector lib (replicate (length (b s)) 0) (L (V s))
          (coefficients (u_n s) (f s')) = Inr vb1 \<and>
        apply_lifting lib (fill (b s) vb1) [a (V s)] [[bc s]] = Inr vb2 \<and>
        ghostUpdate lib (fill (b s) vb2) ADD_VALUES REVERSE = Inr vb3 \<and>
        set_bc lib (fill (b s) vb3) [bc s] = Inr vb4 \<and>
        b s' = fill (b s) vb4"
    by (auto simp add: body_Inr set_all_def)
  fix b0 :: vec
  assume "length b0 = length (b s)"
  then have "body lib (s\<lparr>b := b0\<rparr>) = body lib s"
    by (simp add: body_def set_all_def fill_def)
  with step show "body lib (s\<lparr>b := b0\<rparr>) = Inr s'"
    by simp
qed

theorem rhs_reset_each_pass_witness:
  "\<exists>s s'. initialise demo = Inr s \<and> body demo s = Inr s' \<and> b s = [0, 0] \<and>
     body demo (s\<lparr>b := [5, 7]\<rparr>) = Inr s'"
proof -
  from initialise_demo obtain s where init: "initialise demo = Inr s" ..
  from body_demo [OF initialise_ready [OF init]]
  obtain s' where step: "body demo s = Inr s'" ..
  have len: "b s = [0, 0]"
    using init by (auto simp add: initialise_demo_value)
  from rhs_reset_each_pass [OF step] have "body demo (s\<lparr>b := [5, 7]\<rparr>) = Inr s'"
    by (simp add: len)
  with init step len show ?thesis by blast
qed

subsection \<open>The source term of each step\<close>

text \<open>C4: in every pass, before the right-hand side is assembled and the system solved,
  \<open>t\<close> is advanced by \<open>dt\<close> and \<open>f\<close> is recomputed by interpolating
  \<open>f(x, t) = -exp(-t) * (x0*x1*(x0-2)*(x1-2) + 2*x0*(x0-2) + 2*x1*(x1-2))\<close> at the advanced
  time: pass number \<open>n\<close> (counted from 0) assembles with the source at \<open>t = (n + 1) * dt\<close>.
  The array the assembly reads for the coefficient \<open>f\<close> of \<open>L\<close> is the recomputed one, and
  the array it reads for \<open>u_n\<close> is the one the pass started with.\<close>

theorem source_at_advanced_time:
  "initialise lib = Inr s0 \<Longrightarrow> passes n lib s0 = Inr s \<Longrightarrow> body lib s = Inr s' \<Longrightarrow>
     t s = real n * dt \<and> t s' = t s + dt \<and> t s' = real (n + 1) * dt \<and>
     TimeDependentSource.t (f_expr s') = t s' \<and>
     (\<exists>vf vb.
        interpolate lib (V s) (eval (f_expr s')) = Inr vf \<and> f s' = fill (f s) vf \<and>
        assemble_vector lib (set_all (b s) 0) (L (V s)) (coefficients (u_n s) (f s')) = Inr vb) \<and>
     coefficients (u_n s) (f s') f_ref = f s' \<and>
     coefficients (u_n s) (f s') u_n_ref = u_n s \<and>
     (\<forall>x0 x1. eval (f_expr s') (x0, x1) =
        - exp (- t s') * (x0 * x1 * (x0 - 2) * (x1 - 2) + 2 * x0 * (x0 - 2) + 2 * x1 * (x1 - 2)))"
proof -
  assume init: "initialise lib = Inr s0" and run: "passes n lib s0 = Inr s"
    and step: "body lib s = Inr s'"
  have now: "t s = real n * dt"
    using passes_t [OF run] initialise_t [OF init] by simp
  have next_t: "t s' = t s + dt"
    by (rule body_t [OF step])
  have src: "TimeDependentSource.t (f_expr s') = t s'"
    using step by (auto simp add: body_Inr)
  have calls: "\<exists>vf vb.
        interpolate lib (V s) (eval (f_expr s')) = Inr vf \<and> f s' = fill (f s) vf \<and>
        assemble_vector lib (set_all (b s) 0) (L (V s)) (coefficients (u_n s) (f s')) = Inr vb"
    using step by (auto simp add: body_Inr)
  have formula: "eval (f_expr s') (x0, x1) =
        - exp (- t s') * (x0 * x1 * (x0 - 2) * (x1 - 2) + 2 * x0 * (x0 - 2) + 2 * x1 * (x1 - 2))"
    for x0 x1
    by (simp add: eval_def src algebra_simps)
  from now next_t src calls formula coefficients_binding [of "u_n s" "f s'"] show ?thesis
    by (simp add: algebra_simps)
qed

text \<open>The first pass on the small library: the source is interpolated at \<open>t = dt\<close>, the
  assembly reads that array for \<open>f\<close>, and the right-hand side computed from it is
  \<open>u_n + dt * f\<close> at the two degrees of freedom.\<close>

theorem source_at_advanced_time_witness:
  "initialise demo = Inr demo_start \<and> passes 0 demo demo_start = Inr demo_start \<and>
   body demo demo_start = Inr demo_first \<and>
   t demo_start = 0 \<and> t demo_first = dt \<and> TimeDependentSource.t (f_expr demo_first) = dt \<and>
   f demo_start = [2, 3] \<and> f demo_first = [2 * exp (- dt), 3 * exp (- dt)] \<and>
   coefficients (u_n demo_start) (f demo_first) f_ref = [2 * exp (- dt), 3 * exp (- dt)] \<and>
   coefficients (u_n demo_start) (f demo_first) u_n_ref = [0, 1] \<and>
   b demo_first = [dt * (2 * exp (- dt)), 1 + dt * (3 * exp (- dt))] \<and>
   eval (f_expr demo_first) (1, 1) = 3 * exp (- dt)"
proof -
  have run: "passes 0 demo demo_start = Inr demo_start"
    by simp
  note fact = source_at_advanced_time [OF initialise_demo_start run body_demo_start]
  have vals: "f demo_start = [2, 3]" "f demo_first = [2 * exp (- dt), 3 * exp (- dt)]"
    "u_n demo_start = [0, 1]"
    "b demo_first = [dt * (2 * exp (- dt)), 1 + dt * (3 * exp (- dt))]"
    by (simp_all add: demo_start_def demo_first_def)
  have "t demo_start = 0" "t demo_first = dt" "TimeDependentSource.t (f_expr demo_first) = dt"
    using fact by simp_all
  moreover have "coefficients (u_n demo_start) (f demo_first) f_ref = [2 * exp (- dt), 3 * exp (- dt)]"
    "coefficients (u_n demo_start) (f demo_first) u_n_ref = [0, 1]"
    using fact vals by simp_all
  moreover have "eval (f_expr demo_first) (1, 1) = 3 * exp (- dt)"
    using fact by simp
  ultimately show ?thesis
    using initialise_demo_start run body_demo_start vals by simp
qed

subsection \<open>The system matrix and the solver\<close>

text \<open>C6, as amended: the matrix \<open>A\<close> is assembled once, by the cells before the loop, and
  the solver is configured with it there. No pass of the loop calls the matrix assembly
  (replacing the library's matrix routines changes nothing in a pass), and a pass leaves
  \<open>A\<close>, the solver, the mesh, the space and the boundary condition as they were: across
  the passes only \<open>b\<close>, \<open>f\<close>, \<open>u_sol\<close>, \<open>u_n\<close>, the time \<open>t\<close>, the attribute \<open>f_expr.t\<close>, the
  plotted data and the frames of the GIF change.\<close>

theorem matrix_assembled_once:
  "initialise lib = Inr s0 \<Longrightarrow> passes k lib s0 = Inr s \<Longrightarrow> body lib s = Inr s' \<Longrightarrow>
     (\<exists>A0. assemble_matrix lib (a (V s0)) = Inr A0 \<and> Mat_assemble lib A0 = Inr (A s0)) \<and>
     solver s0 = \<lparr>operators = Some (A s0), ksp_type = PREONLY, pc_type = LU\<rparr> \<and>
     A s = A s0 \<and> solver s = solver s0 \<and> A s' = A s0 \<and> solver s' = solver s0 \<and>
     (\<forall>g h. body (lib\<lparr>assemble_matrix := g, Mat_assemble := h\<rparr>) s = body lib s) \<and>
     domain s' = domain s \<and> V s' = V s \<and> bc s' = bc s \<and>
     s' = s\<lparr>t := t s', f_expr := f_expr s', f := f s', b := b s', u_sol := u_sol s',
            u_n := u_n s', warped := warped s', files := files s'\<rparr>"
proof -
  assume init: "initialise lib = Inr s0" and run: "passes k lib s0 = Inr s"
    and step: "body lib s = Inr s'"
  have once: "\<exists>A0. assemble_matrix lib (a (V s0)) = Inr A0 \<and> Mat_assemble lib A0 = Inr (A s0)"
    using init by (auto simp add: initialise_Inr)
  have conf: "solver s0 = \<lparr>operators = Some (A s0), ksp_type = PREONLY, pc_type = LU\<rparr>"
    using init by (auto simp add: initialise_Inr)
  have nocall: "body (lib\<lparr>assemble_matrix := g, Mat_assemble := h\<rparr>) s = body lib s" for g h
    by (simp add: body_def)
  from once conf nocall passes_keeps [OF run] body_keeps [OF step] body_frame [OF step]
  show ?thesis by simp
qed

theorem matrix_assembled_once_witness:
  "\<exists>s0 s s'. initialise demo = Inr s0 \<and> passes 3 demo s0 = Inr s \<and> body demo s = Inr s' \<and>
     A s0 = [1, 1] \<and> A s = [1, 1] \<and> A s' = [1, 1] \<and>
     solver s' = \<lparr>operators = Some [1, 1], ksp_type = PREONLY, pc_type = LU\<rparr> \<and>
     body (demo\<lparr>assemble_matrix := (\<lambda>F. Inl (PETScError 73)),
                 Mat_assemble := (\<lambda>M. Inl (PETScError 73))\<rparr>) s = Inr s'"
proof -
  from initialise_demo obtain s0 where init: "initialise demo = Inr s0" ..
  from passes_demo [OF initialise_ready [OF init]]
  obtain s where run: "passes 3 demo s0 = Inr s" ..
  from body_demo [OF run_ready [OF init run]]
  obtain s' where step: "body demo s = Inr s'" ..
  note fact = matrix_assembled_once [OF init run step]
  have "A s0 = [1, 1]"
    using init by (auto simp add: initialise_demo_value)
  with fact step init run show ?thesis
    by auto
qed

text \<open>The claim as it was stated, that only \<open>b\<close>, \<open>f\<close>, \<open>u_sol\<close> and \<open>u_n\<close> change, fails at the
  first pass already: the pass advances \<open>t\<close> and appends a frame to the GIF, so the state
  after it is not the state before it with those four arrays replaced.\<close>

theorem only_four_arrays_change_counterexample:
  "initialise demo = Inr demo_start \<and> body demo demo_start = Inr demo_first \<and>
   t demo_start = 0 \<and> t demo_first = dt \<and> t demo_first \<noteq> t demo_start \<and>
   files demo_first \<noteq> files demo_start \<and>
   demo_first \<noteq> demo_start\<lparr>f := f demo_first, b := b demo_first, u_sol := u_sol demo_first,
                              u_n := u_n demo_first\<rparr>"
proof -
  have t0: "t demo_start = 0" and t1: "t demo_first = dt"
    by (simp_all add: demo_start_def demo_first_def)
  have moved: "t demo_first \<noteq> t demo_start"
    using dt_pos by (simp add: t0 t1)
  have "files demo_first ''u_sol.gif'' \<noteq> files demo_start ''u_sol.gif''"
    by (simp add: demo_start_def demo_first_def)
  then have frames: "files demo_first \<noteq> files demo_start"
    by auto
  have other: "demo_first \<noteq> demo_start\<lparr>f := f demo_first, b := b demo_first,
      u_sol := u_sol demo_first, u_n := u_n demo_first\<rparr>"
  proof
    assume "demo_first = demo_start\<lparr>f := f demo_first, b := b demo_first,
      u_sol := u_sol demo_first, u_n := u_n demo_first\<rparr>"
    then have "t demo_first = t (demo_start\<lparr>f := f demo_first, b := b demo_first,
      u_sol := u_sol demo_first, u_n := u_n demo_first\<rparr>)"
      by simp
    with moved show False by simp
  qed
  from initialise_demo_start body_demo_start t0 t1 moved frames other show ?thesis
    by simp
qed

subsection \<open>The files written\<close>

text \<open>C8: the only file the script writes is \<open>u_sol.gif\<close>, and each pass of the loop
  appends exactly one frame to it: after \<open>k\<close> passes it holds \<open>k\<close> frames, and
  \<open>num_steps\<close> frames when the script ends. No solution file exists (the XDMF calls are
  comments, so the script has no statement that writes one).\<close>

theorem only_file_is_the_gif:
  "initialise lib = Inr s0 \<Longrightarrow> passes k lib s0 = Inr s \<Longrightarrow>
     files s0 = [''u_sol.gif'' \<mapsto> []] \<and>
     dom (files s) = {''u_sol.gif''} \<and>
     (\<exists>frames. files s ''u_sol.gif'' = Some frames \<and> length frames = k) \<and>
     files s ''solution_CR.xdmf'' = None \<and>
     (\<forall>s'. body lib s = Inr s' \<longrightarrow>
        (\<exists>frames. files s ''u_sol.gif'' = Some frames \<and>
           files s' = (files s)(''u_sol.gif'' \<mapsto> frames @ [warped s']))) \<and>
     (\<forall>sf. main lib = Inr sf \<longrightarrow>
        dom (files sf) = {''u_sol.gif''} \<and>
        (\<exists>frames. files sf ''u_sol.gif'' = Some frames \<and> length frames = num_steps))"
proof -
  assume init: "initialise lib = Inr s0" and run: "passes k lib s0 = Inr s"
  have f0: "files s0 = [''u_sol.gif'' \<mapsto> []]" and p0: "mwriter (plotter s0) = Some ''u_sol.gif''"
    using init by (auto simp add: initialise_Inr)
  have at0: "files s0 ''u_sol.gif'' = Some []"
    by (simp add: f0)
  have d0: "dom (files s0) = {''u_sol.gif''}"
    by (simp add: f0)
  have count: "dom (files s1) = {''u_sol.gif''}"
      "\<exists>frames. files s1 ''u_sol.gif'' = Some frames \<and> length frames = j"
    if "passes j lib s0 = Inr s1" for j s1
    using passes_files [OF that p0 at0] d0 by simp_all
  have xdmf: "files s ''solution_CR.xdmf'' = None"
  proof -
    have "''solution_CR.xdmf'' \<notin> dom (files s)"
      by (simp add: count(1) [OF run])
    then show ?thesis by (simp add: domIff)
  qed
  have pl: "mwriter (plotter s) = Some ''u_sol.gif''"
    using passes_keeps [OF run] p0 by simp
  have one: "\<exists>frames. files s ''u_sol.gif'' = Some frames \<and>
           files s' = (files s)(''u_sol.gif'' \<mapsto> frames @ [warped s'])"
    if step: "body lib s = Inr s'" for s'
  proof -
    from count(2) [OF run] obtain frames where fr: "files s ''u_sol.gif'' = Some frames"
      by blast
    from body_files [OF step pl fr] fr show ?thesis
      by blast
  qed
  have whole: "dom (files sf) = {''u_sol.gif''}"
      "\<exists>frames. files sf ''u_sol.gif'' = Some frames \<and> length frames = num_steps"
    if fin: "main lib = Inr sf" for sf
  proof -
    from fin obtain s0' s1 where "initialise lib = Inr s0'"
      and "passes num_steps lib s0' = Inr s1"
      and sf: "sf = s1\<lparr>plotter := close (plotter s1)\<rparr>"
      unfolding main_Inr by blast
    with init have "passes num_steps lib s0 = Inr s1"
      by simp
    from count [OF this] show "dom (files sf) = {''u_sol.gif''}"
      "\<exists>frames. files sf ''u_sol.gif'' = Some frames \<and> length frames = num_steps"
      by (simp_all add: sf)
  qed
  show ?thesis
    by (intro conjI allI impI) (rule f0 count [OF run] xdmf one whole | assumption)+
qed

theorem only_file_is_the_gif_witness:
  "\<exists>s0 s sf. initialise demo = Inr s0 \<and> passes 5 demo s0 = Inr s \<and> main demo = Inr sf \<and>
     dom (files s) = {''u_sol.gif''} \<and>
     (\<exists>frames. files s ''u_sol.gif'' = Some frames \<and> length frames = 5) \<and>
     dom (files sf) = {''u_sol.gif''} \<and>
     (\<exists>frames. files sf ''u_sol.gif'' = Some frames \<and> length frames = 200)"
proof -
  from initialise_demo obtain s0 where init: "initialise demo = Inr s0" ..
  from passes_demo [OF initialise_ready [OF init]]
  obtain s where run: "passes 5 demo s0 = Inr s" ..
  from passes_demo [OF initialise_ready [OF init]]
  obtain s1 where "passes num_steps demo s0 = Inr s1" ..
  with init have fin: "main demo = Inr (s1\<lparr>plotter := close (plotter s1)\<rparr>)"
    by (simp add: main_def then_do_def time_loop_initial)
  note fact = only_file_is_the_gif [OF init run]
  from fact have here: "dom (files s) = {''u_sol.gif''}"
    "\<exists>frames. files s ''u_sol.gif'' = Some frames \<and> length frames = 5"
    by blast+
  from fact fin have there: "dom (files (s1\<lparr>plotter := close (plotter s1)\<rparr>)) = {''u_sol.gif''}"
    "\<exists>frames. files (s1\<lparr>plotter := close (plotter s1)\<rparr>) ''u_sol.gif'' = Some frames \<and>
       length frames = num_steps"
    by blast+
  from there(2) have "\<exists>frames. files (s1\<lparr>plotter := close (plotter s1)\<rparr>) ''u_sol.gif'' = Some frames \<and>
       length frames = 200"
    by (simp add: num_steps_def)
  with init run fin here there(1) show ?thesis
    by blast
qed

subsection \<open>Exceptions\<close>

text \<open>C9: the script has no handler: an exception raised by a library call leaves the
  script as it is. The script ends with an exception \<open>e\<close> exactly when the cells before
  the loop end with \<open>e\<close> or one of the \<open>num_steps\<close> passes does; the cells before the loop
  end with \<open>e\<close> exactly when one of their library calls (mesh construction, function
  space, boundary condition, interpolation, matrix assembly, vector creation) raises \<open>e\<close>,
  the calls before it having returned; and a pass, in a state the script can reach, ends
  with \<open>e\<close> exactly when one of its library calls (interpolation, vector assembly, lifting,
  ghost update, \<open>set_bc\<close>, the linear solve, the scatter) raises \<open>e\<close>. No other exception
  arises: the script's own copies and \<open>write_frame\<close> do not raise there.\<close>

theorem exceptions_propagate:
  "(main lib = Inl e \<longleftrightarrow>
      initialise lib = Inl e \<or>
      (\<exists>s0 k s. initialise lib = Inr s0 \<and> k < num_steps \<and> passes k lib s0 = Inr s \<and>
         body lib s = Inl e)) \<and>
   (initialise lib = Inl e \<longleftrightarrow>
      create_rectangle lib ((0, 0), (2, 2)) (nx, ny) triangle = Inl e \<or>
      (\<exists>m. create_rectangle lib ((0, 0), (2, 2)) (nx, ny) triangle = Inr m \<and>
       (functionspace lib m (''CR'', 1) = Inl e \<or>
       (\<exists>W. functionspace lib m (''CR'', 1) = Inr W \<and>
        (locate_entities_boundary lib m (topology_dim lib m - 2) (\<lambda>x. True) = Inl e \<or>
        (\<exists>facets. locate_entities_boundary lib m (topology_dim lib m - 2) (\<lambda>x. True) = Inr facets \<and>
         (locate_dofs_topological lib W (topology_dim lib m - 2) facets = Inl e \<or>
         (\<exists>dofs. locate_dofs_topological lib W (topology_dim lib m - 2) facets = Inr dofs \<and>
          (dirichletbc lib 0 dofs W = Inl e \<or>
          (\<exists>bc0. dirichletbc lib 0 dofs W = Inr bc0 \<and>
           (interpolate lib W initial_condition = Inl e \<or>
           (\<exists>vu. interpolate lib W initial_condition = Inr vu \<and>
            (interpolate lib W (eval \<lparr>TimeDependentSource.t = 0\<rparr>) = Inl e \<or>
            (\<exists>vf. interpolate lib W (eval \<lparr>TimeDependentSource.t = 0\<rparr>) = Inr vf \<and>
             (assemble_matrix lib (a W) = Inl e \<or>
             (\<exists>A0. assemble_matrix lib (a W) = Inr A0 \<and>
              (Mat_assemble lib A0 = Inl e \<or>
              (\<exists>A1. Mat_assemble lib A0 = Inr A1 \<and>
               create_vector lib (L W) = Inl e)))))))))))))))))) \<and>
   (\<forall>s. ready s \<longrightarrow>
      (body lib s = Inl e \<longleftrightarrow>
         interpolate lib (V s) (eval ((f_expr s)\<lparr>TimeDependentSource.t := t s + dt\<rparr>)) = Inl e \<or>
         (\<exists>vf. interpolate lib (V s) (eval ((f_expr s)\<lparr>TimeDependentSource.t := t s + dt\<rparr>)) = Inr vf \<and>
          (assemble_vector lib (set_all (b s) 0) (L (V s)) (coefficients (u_n s) (fill (f s) vf)) = Inl e \<or>
          (\<exists>vb1. assemble_vector lib (set_all (b s) 0) (L (V s)) (coefficients (u_n s) (fill (f s) vf)) = Inr vb1 \<and>
           (apply_lifting lib (fill (b s) vb1) [a (V s)] [[bc s]] = Inl e \<or>
           (\<exists>vb2. apply_lifting lib (fill (b s) vb1) [a (V s)] [[bc s]] = Inr vb2 \<and>
            (ghostUpdate lib (fill (b s) vb2) ADD_VALUES REVERSE = Inl e \<or>
            (\<exists>vb3. ghostUpdate lib (fill (b s) vb2) ADD_VALUES REVERSE = Inr vb3 \<and>
             (set_bc lib (fill (b s) vb3) [bc s] = Inl e \<or>
             (\<exists>vb4. set_bc lib (fill (b s) vb3) [bc s] = Inr vb4 \<and>
              (solve lib (solver s) (fill (b s) vb4) (u_sol s) = Inl e \<or>
              (\<exists>vx. solve lib (solver s) (fill (b s) vb4) (u_sol s) = Inr vx \<and>
               scatter_forward lib (fill (u_sol s) vx) = Inl e)))))))))))))"
  apply (intro conjI allI impI)
    apply (rule main_Inl)
   apply (simp add: initialise_def Let_def then_do_Inl open_gif_def)
   apply auto[1]
  apply (clarsimp simp add: ready_def body_def Let_def then_do_Inl assign_slice_def write_frame_def)
  done


theorem exceptions_propagate_witness:
  "main (demo\<lparr>create_rectangle := (\<lambda>corners n cell. Inl (RuntimeError ''no mesh''))\<rparr>)
     = Inl (RuntimeError ''no mesh'') \<and>
   main (demo\<lparr>solve := (\<lambda>ksp b0 x0. Inl (PETScError 76))\<rparr>) = Inl (PETScError 76)"
proof
  note whole = exceptions_propagate [THEN conjunct1]
  note cells = exceptions_propagate [THEN conjunct2, THEN conjunct1]
  note pass = exceptions_propagate [THEN conjunct2, THEN conjunct2, rule_format]
  let ?l1 = "demo\<lparr>create_rectangle := (\<lambda>corners n cell. Inl (RuntimeError ''no mesh''))\<rparr>"
  let ?l2 = "demo\<lparr>solve := (\<lambda>ksp b0 x0. Inl (PETScError 76))\<rparr>"
  have "initialise ?l1 = Inl (RuntimeError ''no mesh'')"
    by (simp add: cells)
  then show "main ?l1 = Inl (RuntimeError ''no mesh'')"
    by (simp add: whole)
  from initialise_demo obtain s0 where init: "initialise demo = Inr s0" ..
  have init2: "initialise ?l2 = Inr s0"
    using init by (simp add: initialise_def Function_def)
  have rdy: "ready s0"
    by (rule initialise_ready [OF init])
  have "body ?l2 s0 = Inl (PETScError 76)"
    by (simp add: pass [OF rdy] demo_def)
  moreover have "passes 0 ?l2 s0 = Inr s0" "0 < num_steps"
    by (simp_all add: num_steps_def)
  ultimately have "\<exists>s0 k s. initialise ?l2 = Inr s0 \<and> k < num_steps \<and> passes k ?l2 s0 = Inr s \<and>
      body ?l2 s = Inl (PETScError 76)"
    using init2 by blast
  then show "main ?l2 = Inl (PETScError 76)"
    by (simp only: whole) simp
qed

subsection \<open>The discrete system of each step\<close>

text \<open>C1: in every pass of the loop the system solved is the backward-Euler
  Crouzeix-Raviart system. The space \<open>V\<close> is the degree-1 \<open>CR\<close> space on the triangulated
  rectangle with corners \<open>(0, 0)\<close> and \<open>(2, 2)\<close>; the matrix of the solver is the one
  assembled from the form \<open>a\<close>, and the vector passed to the solve is assembled from the
  form \<open>L\<close>, whose coefficients \<open>u_n\<close> and \<open>f\<close> are read from the current array of \<open>u_n\<close> and
  the array of \<open>f\<close> recomputed in the pass. For every linear integration functional \<open>dx\<close>
  the form \<open>a\<close> means \<open>dx(u*v) + dt * dx(grad u . grad v)\<close>, and \<open>L\<close> means
  \<open>dx((u_n + dt*f) * v)\<close>.\<close>

theorem backward_euler_system:
  "initialise lib = Inr s0 \<Longrightarrow> passes k lib s0 = Inr s \<Longrightarrow> body lib s = Inr s' \<Longrightarrow>
     (\<exists>m. create_rectangle lib ((0, 0), (2, 2)) (nx, ny) triangle = Inr m \<and>
        functionspace lib m (''CR'', 1) = Inr (V s)) \<and>
     (\<exists>A0. assemble_matrix lib (a (V s)) = Inr A0 \<and> Mat_assemble lib A0 = Inr (A s)) \<and>
     solver s = \<lparr>operators = Some (A s), ksp_type = PREONLY, pc_type = LU\<rparr> \<and>
     (\<exists>vb1 vb2 vb3 vb4 vx vy.
        assemble_vector lib (set_all (b s) 0) (L (V s)) (coefficients (u_n s) (f s')) = Inr vb1 \<and>
        apply_lifting lib (fill (b s) vb1) [a (V s)] [[bc s]] = Inr vb2 \<and>
        ghostUpdate lib (fill (b s) vb2) ADD_VALUES REVERSE = Inr vb3 \<and>
        set_bc lib (fill (b s) vb3) [bc s] = Inr vb4 \<and>
        b s' = fill (b s) vb4 \<and>
        solve lib (solver s) (b s') (u_sol s) = Inr vx \<and>
        scatter_forward lib (fill (u_sol s) vx) = Inr vy \<and>
        u_sol s' = fill (u_sol s) vy) \<and>
     coefficients (u_n s) (f s') u_n_ref = u_n s \<and>
     coefficients (u_n s) (f s') f_ref = f s' \<and>
     (\<exists>vf. interpolate lib (V s) (eval (f_expr s')) = Inr vf \<and> f s' = fill (f s) vf) \<and>
     TimeDependentSource.t (f_expr s') = t s + dt \<and>
     (\<forall>dx env. (\<forall>c g. dx (\<lambda>x. c * g x) = c * dx g) \<longrightarrow>
        form_val dx env (a (V s)) =
          dx (\<lambda>x. val (env (TrialFunction (V s))) x * val (env (TestFunction (V s))) x) +
          dt * dx (\<lambda>x. dot (grad (env (TrialFunction (V s))) x)
                             (grad (env (TestFunction (V s))) x))) \<and>
     (\<forall>dx env. form_val dx env (L (V s)) =
          dx (\<lambda>x. (val (env (Coefficient u_n_ref)) x + dt * val (env (Coefficient f_ref)) x) *
                   val (env (TestFunction (V s))) x))"
proof -
  assume init: "initialise lib = Inr s0" and run: "passes k lib s0 = Inr s"
    and step: "body lib s = Inr s'"
  have same: "V s = V s0" "A s = A s0" "solver s = solver s0"
    using passes_keeps [OF run] by simp_all
  have calls: "\<exists>vb1 vb2 vb3 vb4 vx vy.
        assemble_vector lib (set_all (b s) 0) (L (V s)) (coefficients (u_n s) (f s')) = Inr vb1 \<and>
        apply_lifting lib (fill (b s) vb1) [a (V s)] [[bc s]] = Inr vb2 \<and>
        ghostUpdate lib (fill (b s) vb2) ADD_VALUES REVERSE = Inr vb3 \<and>
        set_bc lib (fill (b s) vb3) [bc s] = Inr vb4 \<and>
        b s' = fill (b s) vb4 \<and>
        solve lib (solver s) (b s') (u_sol s) = Inr vx \<and>
        scatter_forward lib (fill (u_sol s) vx) = Inr vy \<and>
        u_sol s' = fill (u_sol s) vy"
    using step by (auto simp add: body_Inr)
  have src: "\<exists>vf. interpolate lib (V s) (eval (f_expr s')) = Inr vf \<and> f s' = fill (f s) vf"
    "TimeDependentSource.t (f_expr s') = t s + dt"
    using step by (auto simp add: body_Inr)
  from initialise_space [OF init] calls src coefficients_binding [of "u_n s" "f s'"]
  show ?thesis
    by (simp add: same a_meaning L_meaning)
qed

text \<open>The first pass on the small library, computed: the right-hand side is
  \<open>u_n + dt * f\<close> at the two degrees of freedom, with \<open>u_n = [0, 1]\<close> and \<open>f\<close> interpolated at
  \<open>t = dt\<close>, and the solve (with the identity matrix) returns it. The forms are evaluated
  with the functional \<open>dx g = 4 * g (1, 1)\<close> and the field \<open>x0\<close> for every argument.\<close>

theorem backward_euler_system_witness:
  "initialise demo = Inr demo_start \<and> passes 0 demo demo_start = Inr demo_start \<and>
   body demo demo_start = Inr demo_first \<and>
   A demo_start = [1, 1] \<and>
   coefficients (u_n demo_start) (f demo_first) u_n_ref = [0, 1] \<and>
   coefficients (u_n demo_start) (f demo_first) f_ref = [2 * exp (- dt), 3 * exp (- dt)] \<and>
   b demo_first = [0 + dt * (2 * exp (- dt)), 1 + dt * (3 * exp (- dt))] \<and>
   u_sol demo_first = b demo_first \<and>
   form_val (\<lambda>g. 4 * g (1, 1)) (\<lambda>p. \<lparr>val = fst, grad = (\<lambda>x. (1, 0))\<rparr>) (a (V demo_start))
     = 4 + dt * 4 \<and>
   form_val (\<lambda>g. 4 * g (1, 1)) (\<lambda>p. \<lparr>val = fst, grad = (\<lambda>x. (1, 0))\<rparr>) (L (V demo_start))
     = 4 * (1 + dt)"
proof -
  have run: "passes 0 demo demo_start = Inr demo_start"
    by simp
  note fact = backward_euler_system [OF initialise_demo_start run body_demo_start]
  have vals: "A demo_start = [1, 1]" "u_n demo_start = [0, 1]"
    "f demo_first = [2 * exp (- dt), 3 * exp (- dt)]"
    "b demo_first = [0 + dt * (2 * exp (- dt)), 1 + dt * (3 * exp (- dt))]"
    "u_sol demo_first = b demo_first"
    by (simp_all add: demo_start_def demo_first_def)
  have bind: "coefficients (u_n demo_start) (f demo_first) u_n_ref = [0, 1]"
    "coefficients (u_n demo_start) (f demo_first) f_ref = [2 * exp (- dt), 3 * exp (- dt)]"
    using fact vals by simp_all
  from fact have "\<forall>dx env. (\<forall>c g. dx (\<lambda>x. c * g x) = c * dx g) \<longrightarrow>
        form_val dx env (a (V demo_start)) =
          dx (\<lambda>x. val (env (TrialFunction (V demo_start))) x *
                   val (env (TestFunction (V demo_start))) x) +
          dt * dx (\<lambda>x. dot (grad (env (TrialFunction (V demo_start))) x)
                             (grad (env (TestFunction (V demo_start))) x))"
    by blast
  from this [rule_format, of "\<lambda>g. 4 * g (1, 1)" "\<lambda>p. \<lparr>val = fst, grad = (\<lambda>x. (1, 0))\<rparr>"]
  have fa: "form_val (\<lambda>g. 4 * g (1, 1)) (\<lambda>p. \<lparr>val = fst, grad = (\<lambda>x. (1, 0))\<rparr>) (a (V demo_start))
      = 4 + dt * 4"
    by simp
  from fact have "\<forall>dx env. form_val dx env (L (V demo_start)) =
          dx (\<lambda>x. (val (env (Coefficient u_n_ref)) x + dt * val (env (Coefficient f_ref)) x) *
                   val (env (TestFunction (V demo_start))) x)"
    by blast
  then have fl: "form_val (\<lambda>g. 4 * g (1, 1)) (\<lambda>p. \<lparr>val = fst, grad = (\<lambda>x. (1, 0))\<rparr>) (L (V demo_start))
      = 4 * (1 + dt)"
    by simp
  from initialise_demo_start run body_demo_start vals bind fa fl show ?thesis
    by simp
qed

subsection \<open>The dimension of the boundary entities\<close>

text \<open>C2: on a mesh of topological dimension 2 the script locates the boundary entities
  of dimension \<open>fdim = 2 - 2 = 0\<close> (vertices), not of dimension \<open>2 - 1 = 1\<close> (facets); the
  Dirichlet condition is built from the degrees of freedom the library attaches to those
  entities.\<close>

theorem boundary_entity_dimension:
  "initialise lib = Inr s \<Longrightarrow> topology_dim lib (domain s) = 2 \<Longrightarrow>
     fdim s = 0 \<and> fdim s \<noteq> topology_dim lib (domain s) - 1 \<and>
     locate_entities_boundary lib (domain s) 0 (\<lambda>x. True) = Inr (boundary_facets s) \<and>
     (\<exists>dofs. locate_dofs_topological lib (V s) 0 (boundary_facets s) = Inr dofs \<and>
        dirichletbc lib 0 dofs (V s) = Inr (bc s))"
  by (auto simp add: initialise_Inr)

theorem boundary_entity_dimension_witness:
  "\<exists>s. initialise demo = Inr s \<and> topology_dim demo (domain s) = 2 \<and> fdim s = 0 \<and>
     locate_entities_boundary demo (domain s) 0 (\<lambda>x. True) = Inr [] \<and>
     locate_entities_boundary demo (domain s) 1 (\<lambda>x. True) = Inr [0] \<and>
     boundary_facets s = [] \<and> bc s = []"
proof -
  from initialise_demo obtain s where init: "initialise demo = Inr s" ..
  have tdim: "topology_dim demo (domain s) = 2"
    by (simp add: demo_def)
  from boundary_entity_dimension [OF init tdim] init tdim show ?thesis
    by (auto simp add: initialise_demo_value demo_def)
qed

end
